theory Spec2Isabelle
  imports Complex_Main "HOL-Library.Word"
begin

section \<open>The Livepeer exporter: process start-up (main.go)\<close>

subsection \<open>Durations\<close>

text \<open>
  Go's \<^verbatim>\<open>time.Duration\<close> is an \<^verbatim>\<open>int64\<close> count of nanoseconds; \<open>sint\<close> reads the
  signed value. The unit constants are those of package \<^verbatim>\<open>time\<close>.
\<close>

type_synonym Duration = "64 word"

definition Nanosecond :: Duration where
  "Nanosecond = 1"

definition Microsecond :: Duration where
  "Microsecond = 1000 * Nanosecond"

definition Millisecond :: Duration where
  "Millisecond = 1000 * Microsecond"

definition Second :: Duration where
  "Second = 1000 * Millisecond"

definition Minute :: Duration where
  "Minute = 60 * Second"

text \<open>Exporter default config values (main.go, lines 31-35).\<close>

definition fetchIntervalDefault :: Duration where
  "fetchIntervalDefault = 1 * Minute"

definition testStreamsFetchIntervalDefault :: Duration where
  "testStreamsFetchIntervalDefault = 15 * Minute"

definition updateIntervalDefault :: Duration where
  "updateIntervalDefault = 30 * Second"

subsection \<open>What the process does: events and outcomes\<close>

text \<open>
  \<open>main\<close> only has effects. They are recorded, in program order, as a list of events;
  the outcome says how the run of \<open>main\<close> ends.
  \<^item> \<open>Println\<close> is \<^verbatim>\<open>log.Println\<close>; \<open>Fatal\<close> is \<^verbatim>\<open>log.Fatal\<close> / \<^verbatim>\<open>log.Fatalf\<close>, which
    print the message and then call \<^verbatim>\<open>os.Exit(1)\<close>.
  \<^item> The \<open>New...\<close> events are the five constructor calls with their arguments in source
    order; \<open>Start\<close> is a call of an exporter's \<^verbatim>\<open>Start()\<close>.
  \<^item> \<open>Handle\<close> is \<^verbatim>\<open>http.Handle\<close>, \<open>Listen\<close> is the call of \<^verbatim>\<open>http.ListenAndServe\<close>.
\<close>

datatype exporter = OrchInfo | OrchScore | OrchDelegators | OrchTestStreams | OrchTickets

datatype event =
    Println string
  | Fatal string
  | NewOrchInfoExporter string Duration Duration string
  | NewOrchScoreExporter string Duration Duration
  | NewOrchDelegatorsExporter string Duration Duration
  | NewOrchTestStreamsExporter string Duration Duration
  | NewOrchTicketsExporter string Duration Duration
  | Start exporter
  | Handle string
  | Listen string

text \<open>
  \<open>Exit n\<close>: the process was ended by \<^verbatim>\<open>os.Exit(n)\<close>. \<open>Returns\<close>: \<open>main\<close> ran to its last
  line and returned (the Go runtime then ends the process with status 0). \<open>Serves\<close>:
  \<^verbatim>\<open>http.ListenAndServe\<close> never returned, the process serves until it is killed.
\<close>

datatype outcome = Exit nat | Returns | Serves

fun exitStatus :: "outcome \<Rightarrow> nat option" where
  "exitStatus (Exit n) = Some n"
| "exitStatus Returns = Some 0"
| "exitStatus Serves = None"

subsection \<open>The surroundings of the process\<close>

text \<open>
  The process environment is a map from names to values; \<^verbatim>\<open>os.Getenv\<close> returns the empty
  string for a variable that is not set.
\<close>

definition Getenv :: "(string \<rightharpoonup> string) \<Rightarrow> string \<Rightarrow> string" where
  "Getenv env key = (case env key of None \<Rightarrow> [] | Some v \<Rightarrow> v)"

text \<open>
  Two library functions are parameters of \<open>main\<close>:
  \<^item> \<open>ParseDuration\<close>, the standard library's \<^verbatim>\<open>time.ParseDuration\<close>: \<open>Inl\<close> carries the
    text of a non-nil error, \<open>Inr\<close> the parsed duration;
  \<^item> \<open>ListenAndServe\<close>, \<^verbatim>\<open>http.ListenAndServe\<close> applied to the address: \<open>Some err\<close> when
    the call returns (it only ever returns a non-nil error), \<open>None\<close> when it blocks for
    the lifetime of the process.
\<close>

type_synonym parser = "string \<Rightarrow> string + Duration"
type_synonym listener = "string \<Rightarrow> string option"

subsection \<open>main\<close>

definition main :: "parser \<Rightarrow> listener \<Rightarrow> (string \<rightharpoonup> string) \<Rightarrow> event list \<times> outcome" where
  "main ParseDuration ListenAndServe env =
    (let t0 = [Println ''Starting Livepeer exporter...''];
         orchAddr = Getenv env ''LIVEPEER_EXPORTER_ORCHESTRATOR_ADDRESS''
     in
     if orchAddr = [] then
       (t0 @ [Fatal '''LIVEPEER_EXPORTER_ORCHESTRATOR_ADDRESS' environment variable should be set''],
        Exit 1)
     else
     (let orchAddrSecondary = Getenv env ''LIVEPEER_EXPORTER_ORCHESTRATOR_ADDRESS_SECONDARY'';
         fetchIntervalStr = Getenv env ''LIVEPEER_EXPORTER_FETCH_INTERVAL''
     in
     (case (if fetchIntervalStr = [] then Inr fetchIntervalDefault
           else ParseDuration fetchIntervalStr) of
       Inl err \<Rightarrow>
         (t0 @ [Fatal (''failed to parse 'LIVEPEER_EXPORTER_FETCH_INTERVAL' environment variable: '' @ err)],
          Exit 1)
     | Inr fetchInterval \<Rightarrow>
     (let fetchTestStreamsIntervalStr = Getenv env ''LIVEPEER_EXPORTER_FETCH_TEST_STREAMS_INTERVAL''
     in
     (case (if fetchTestStreamsIntervalStr = [] then Inr testStreamsFetchIntervalDefault
           else ParseDuration fetchTestStreamsIntervalStr) of
       Inl err \<Rightarrow>
         (t0 @ [Fatal (''failed to parse 'LIVEPEER_EXPORTER_FETCH_TEST_STREAMS_INTERVAL' environment variable: '' @ err)],
          Exit 1)
     | Inr fetchTestStreamsInterval \<Rightarrow>
     (let updateIntervalStr = Getenv env ''LIVEPEER_EXPORTER_UPDATE_INTERVAL''
     in
     (case (if updateIntervalStr = [] then Inr updateIntervalDefault
           else ParseDuration updateIntervalStr) of
       Inl err \<Rightarrow>
         (t0 @ [Fatal (''failed to parse 'LIVEPEER_EXPORTER_UPDATE_INTERVAL' environment variable: '' @ err)],
          Exit 1)
     | Inr updateInterval \<Rightarrow>
     (let t1 = t0 @
           [Println ''Setting up sub exporters...'',
            NewOrchInfoExporter orchAddr fetchInterval updateInterval orchAddrSecondary,
            NewOrchScoreExporter orchAddr fetchInterval updateInterval,
            NewOrchDelegatorsExporter orchAddr fetchInterval updateInterval,
            NewOrchTestStreamsExporter orchAddr fetchTestStreamsInterval updateInterval,
            NewOrchTicketsExporter orchAddr fetchInterval updateInterval,
            Println ''Starting sub exporters...'',
            Start OrchInfo,
            Start OrchScore,
            Start OrchDelegators,
            Start OrchTestStreams,
            Start OrchTickets,
            Println ''Exposing metrics via HTTP on port 9153'',
            Handle ''/metrics'',
            Listen '':9153'']
     in
     (case ListenAndServe '':9153'' of
       None \<Rightarrow> (t1, Serves)
     | Some err \<Rightarrow> (t1, Returns))))))))))"

subsection \<open>Reading a trace\<close>

text \<open>Which events are fatal log lines, constructor calls, starts and listens.\<close>

fun isFatal :: "event \<Rightarrow> bool" where
  "isFatal (Fatal msg) = True"
| "isFatal _ = False"

fun isNew :: "event \<Rightarrow> bool" where
  "isNew (NewOrchInfoExporter a f u s) = True"
| "isNew (NewOrchScoreExporter a f u) = True"
| "isNew (NewOrchDelegatorsExporter a f u) = True"
| "isNew (NewOrchTestStreamsExporter a f u) = True"
| "isNew (NewOrchTicketsExporter a f u) = True"
| "isNew _ = False"

fun isStart :: "event \<Rightarrow> bool" where
  "isStart (Start x) = True"
| "isStart _ = False"

fun isListen :: "event \<Rightarrow> bool" where
  "isListen (Listen addr) = True"
| "isListen _ = False"

text \<open>
  A few input/output pairs of \<^verbatim>\<open>time.ParseDuration\<close>, for running \<open>main\<close> on concrete
  configurations. Every string outside the table is rejected here; the error text is
  shortened.
\<close>

definition parseTable :: parser where
  "parseTable s =
    (if s = ''0s'' then Inr 0
     else if s = ''-5m'' then Inr (- (5 * Minute))
     else if s = ''10s'' then Inr (10 * Second)
     else if s = ''2m'' then Inr (2 * Minute)
     else Inl ''time: invalid duration'')"

section \<open>The sub-exporters\<close>

text \<open>
  The five packages under \<^verbatim>\<open>exporters/\<close> that \<open>main\<close> imports
  (\<^verbatim>\<open>orch_info_exporter\<close>, \<^verbatim>\<open>orch_score_exporter\<close>, \<^verbatim>\<open>orch_delegators_exporter\<close>,
  \<^verbatim>\<open>orch_test_streams_exporter\<close>, \<^verbatim>\<open>orch_tickets_exporter\<close>) are not among the sources.
  What follows is the one mechanism the specification gives for all of them (sections 3
  and 4.1): a fetch loop that replaces a snapshot, an update loop that republishes the
  snapshot into gauges. One tick of either loop is one function on the exporter's state.
  Gauge values are \<open>real\<close>; the rounding of \<^verbatim>\<open>float64\<close> is outside the model.
\<close>

subsection \<open>Data\<close>

text \<open>
  Modelled from the spec: the answer of the monitored node to one HTTP GET, which the
  missing exporters receive: no answer at all (network failure), or a status code with a
  body.
\<close>

datatype http_response = NetworkFailure | Response nat string

text \<open>
  Modelled from the spec: the three kinds of fetch error of section 4.1 ("network
  failure, non-2xx status, decode failure") of the missing exporters.
\<close>

datatype fetch_error = NetworkError | BadStatus nat | DecodeError

text \<open>
  Modelled from the spec: the metrics registry written by the missing exporters' update
  loops (section 2). A gauge is "a named metric with a current numeric value and an optional
  set of label key/value pairs"; the registry maps a gauge name with its label pairs to the
  current value, and a combination that is not reported maps to \<open>None\<close>.
\<close>

type_synonym labels = "(string \<times> string) list"

type_synonym sample = "(string \<times> labels) \<times> real"

type_synonym registry = "(string \<times> labels) \<rightharpoonup> real"

text \<open>
  Modelled from the spec: what distinguishes one missing sub-exporter from another
  (section 2: "parameterized by target address, ... and a decode+transform function"):
  the addresses it GETs, how a body is decoded, the endpoint-specific derivation of the
  snapshot from the decoded responses, the samples published for a snapshot, and the names
  of its gauges that are keyed by a variable-length collection.
\<close>

record ('r, 'd) sub_exporter_kind =
  urls :: "string list"
  decode :: "string \<Rightarrow> 'r option"
  derive :: "'r list \<Rightarrow> 'd"
  publish :: "'d \<Rightarrow> sample list"
  dynamicGauges :: "string list"

text \<open>
  Modelled from the spec: the state a missing sub-exporter owns (section 3): its snapshot,
  its gauges, and the lines its fetch loop has logged.
\<close>

record 'd sub_exporter =
  snapshot :: 'd
  gauges :: registry
  errorLog :: "fetch_error list"

text \<open>
  Modelled from the spec: the missing constructors' initial state; the snapshot is "created
  empty/zero at exporter construction".
\<close>

definition newSubExporter :: "'d \<Rightarrow> 'd sub_exporter" where
  "newSubExporter zero = \<lparr>snapshot = zero, gauges = Map.empty, errorLog = []\<rparr>"

subsection \<open>The fetch loop\<close>

text \<open>
  Modelled from the spec: one HTTP GET of the missing fetch loops with its decoding; it
  fails on a network failure, on a status outside 200..299 and on a body that does not
  decode.
\<close>

definition httpGet :: "(string \<Rightarrow> http_response) \<Rightarrow> (string \<Rightarrow> 'r option) \<Rightarrow> string \<Rightarrow> fetch_error + 'r" where
  "httpGet upstream dec url =
    (case upstream url of
       NetworkFailure \<Rightarrow> Inl NetworkError
     | Response status body \<Rightarrow>
         if status < 200 \<or> 300 \<le> status then Inl (BadStatus status)
         else (case dec body of None \<Rightarrow> Inl DecodeError | Some r \<Rightarrow> Inr r))"

text \<open>
  Modelled from the spec: the "one or more HTTP GETs" of a missing fetch loop, in order;
  the first error ends the fetch.
\<close>

fun httpGetAll :: "(string \<Rightarrow> http_response) \<Rightarrow> (string \<Rightarrow> 'r option) \<Rightarrow> string list \<Rightarrow> fetch_error + 'r list" where
  "httpGetAll upstream dec [] = Inr []"
| "httpGetAll upstream dec (url # rest) =
    (case httpGet upstream dec url of
       Inl e \<Rightarrow> Inl e
     | Inr r \<Rightarrow> (case httpGetAll upstream dec rest of Inl e \<Rightarrow> Inl e | Inr rs \<Rightarrow> Inr (r # rs)))"

text \<open>
  Modelled from the spec: one tick of a missing fetch loop (section 4.1). "On success
  atomically stores the result as the new snapshot. On any error ..., logs the error and
  leaves the existing snapshot untouched."
\<close>

definition fetchTick :: "('r, 'd) sub_exporter_kind \<Rightarrow> (string \<Rightarrow> http_response) \<Rightarrow> 'd sub_exporter \<Rightarrow> 'd sub_exporter" where
  "fetchTick k upstream s =
    (case httpGetAll upstream (decode k) (urls k) of
       Inl e \<Rightarrow> s\<lparr>errorLog := errorLog s @ [e]\<rparr>
     | Inr rs \<Rightarrow> s\<lparr>snapshot := derive k rs\<rparr>)"

subsection \<open>The update loop\<close>

text \<open>
  Modelled from the spec: the reset of the missing update loops; gauges keyed by a
  variable-length collection "must fully reset/replace that gauge's label set on each
  update".
\<close>

definition resetGauges :: "string list \<Rightarrow> registry \<Rightarrow> registry" where
  "resetGauges names g = (\<lambda>key. if fst key \<in> set names then None else g key)"

text \<open>
  Modelled from the spec: the missing update loops set "each owned gauge's value (and
  labels ...)" from the snapshot; a later sample for the same gauge and labels overwrites an
  earlier one.
\<close>

definition setGauges :: "sample list \<Rightarrow> registry \<Rightarrow> registry" where
  "setGauges samples g = fold (\<lambda>(key, v) g. g(key \<mapsto> v)) samples g"

text \<open>
  Modelled from the spec: one tick of a missing update loop (section 4.1): it reads the
  current snapshot, resets the gauges with a data-dependent label set and sets every
  sample published for the snapshot.
\<close>

definition updateTick :: "('r, 'd) sub_exporter_kind \<Rightarrow> 'd sub_exporter \<Rightarrow> 'd sub_exporter" where
  "updateTick k s =
    s\<lparr>gauges := setGauges (publish k (snapshot s)) (resetGauges (dynamicGauges k) (gauges s))\<rparr>"

text \<open>
  Modelled from the spec: what a scrape of \<^verbatim>\<open>/metrics\<close> reports for one gauge and label
  combination of a missing exporter (section 4.2: the current state of the registry).
\<close>

definition scrape :: "'d sub_exporter \<Rightarrow> (string \<times> labels) \<Rightarrow> real option" where
  "scrape s key = gauges s key"

subsection \<open>The info exporter\<close>

text \<open>
  Modelled from the spec: the stake part of the missing \<^verbatim>\<open>orch_info_exporter\<close>. It GETs
  the orchestrator address and, when a secondary address is configured (a non-empty
  string), the secondary address too, and combines "a primary and secondary address's
  bonded stake into one total". The gauge is the \<^verbatim>\<open>livepeer_orch_stake\<close> metric named in
  the header of main.go. The other fields of the endpoint are not modelled.
\<close>

definition orchInfoExporter :: "(string \<Rightarrow> real option) \<Rightarrow> string \<Rightarrow> string \<Rightarrow> (real, real) sub_exporter_kind" where
  "orchInfoExporter decodeStake orchAddr orchAddrSecondary =
    \<lparr>urls = orchAddr # (if orchAddrSecondary = [] then [] else [orchAddrSecondary]),
     decode = decodeStake,
     derive = sum_list,
     publish = (\<lambda>stake. [((''livepeer_orch_stake'', []), stake)]),
     dynamicGauges = []\<rparr>"

subsection \<open>Vocabulary and sample data\<close>

text \<open>A GET that fails in one of the three ways: no answer, a non-2xx status, a body that does not decode.\<close>

definition failing :: "(string \<Rightarrow> http_response) \<Rightarrow> (string \<Rightarrow> 'r option) \<Rightarrow> string \<Rightarrow> bool" where
  "failing upstream dec url =
    (case upstream url of
       NetworkFailure \<Rightarrow> True
     | Response status body \<Rightarrow> status < 200 \<or> 300 \<le> status \<or> dec body = None)"

text \<open>
  A stub upstream for concrete runs of the info exporter: the primary address
  \<open>''0xabc''\<close> has stake 100, the secondary \<open>''0xdef''\<close> has stake 50; and the same node
  answering 500.
\<close>

definition stakeBodies :: "string \<Rightarrow> real option" where
  "stakeBodies body =
    (if body = ''100'' then Some 100 else if body = ''50'' then Some 50 else None)"

definition upstreamUp :: "string \<Rightarrow> http_response" where
  "upstreamUp url =
    (if url = ''0xabc'' then Response 200 ''100''
     else if url = ''0xdef'' then Response 200 ''50''
     else Response 404 [])"

definition upstreamDown :: "string \<Rightarrow> http_response" where
  "upstreamDown url = (if url = ''0xabc'' then Response 500 [] else NetworkFailure)"

text \<open>
  A sub-exporter with one gauge keyed by a variable-length collection, one sample per
  delegator, and a stub upstream that first lists two delegators and then one.
\<close>

definition delegatorBodies :: "string \<Rightarrow> (string \<times> real) list option" where
  "delegatorBodies body =
    (if body = ''two'' then Some [(''0xd1'', 10), (''0xd2'', 20)]
     else if body = ''one'' then Some [(''0xd1'', 10)]
     else None)"

definition delegatorsLike :: "((string \<times> real) list, (string \<times> real) list) sub_exporter_kind" where
  "delegatorsLike =
    \<lparr>urls = [''0xabc''],
     decode = delegatorBodies,
     derive = concat,
     publish = map (\<lambda>(a, stake). ((''delegator_stake'', [(''delegator'', a)]), stake)),
     dynamicGauges = [''delegator_stake'']\<rparr>"

definition upstreamTwo :: "string \<Rightarrow> http_response" where
  "upstreamTwo url = (if url = ''0xabc'' then Response 200 ''two'' else Response 404 [])"

definition upstreamOne :: "string \<Rightarrow> http_response" where
  "upstreamOne url = (if url = ''0xabc'' then Response 200 ''one'' else Response 404 [])"

section \<open>Properties of start-up\<close>

subsection \<open>The five ways through the configuration\<close>

lemma main_no_address:
  "Getenv env ''LIVEPEER_EXPORTER_ORCHESTRATOR_ADDRESS'' = [] \<Longrightarrow>
   main P L env =
     ([Println ''Starting Livepeer exporter...'',
       Fatal '''LIVEPEER_EXPORTER_ORCHESTRATOR_ADDRESS' environment variable should be set''],
      Exit 1)"
  by (simp add: main_def)

lemma main_bad_fetch_interval:
  assumes "Getenv env ''LIVEPEER_EXPORTER_ORCHESTRATOR_ADDRESS'' \<noteq> []"
    and "Getenv env ''LIVEPEER_EXPORTER_FETCH_INTERVAL'' \<noteq> []"
    and "P (Getenv env ''LIVEPEER_EXPORTER_FETCH_INTERVAL'') = Inl err"
  shows "main P L env =
     ([Println ''Starting Livepeer exporter...'',
       Fatal (''failed to parse 'LIVEPEER_EXPORTER_FETCH_INTERVAL' environment variable: '' @ err)],
      Exit 1)"
  using assms by (simp add: main_def)

lemma main_bad_test_streams_interval:
  assumes "Getenv env ''LIVEPEER_EXPORTER_ORCHESTRATOR_ADDRESS'' \<noteq> []"
    and "(if Getenv env ''LIVEPEER_EXPORTER_FETCH_INTERVAL'' = [] then Inr fetchIntervalDefault
          else P (Getenv env ''LIVEPEER_EXPORTER_FETCH_INTERVAL'')) = Inr fi"
    and "Getenv env ''LIVEPEER_EXPORTER_FETCH_TEST_STREAMS_INTERVAL'' \<noteq> []"
    and "P (Getenv env ''LIVEPEER_EXPORTER_FETCH_TEST_STREAMS_INTERVAL'') = Inl err"
  shows "main P L env =
     ([Println ''Starting Livepeer exporter...'',
       Fatal (''failed to parse 'LIVEPEER_EXPORTER_FETCH_TEST_STREAMS_INTERVAL' environment variable: '' @ err)],
      Exit 1)"
  using assms by (simp add: main_def)

lemma main_bad_update_interval:
  assumes "Getenv env ''LIVEPEER_EXPORTER_ORCHESTRATOR_ADDRESS'' \<noteq> []"
    and "(if Getenv env ''LIVEPEER_EXPORTER_FETCH_INTERVAL'' = [] then Inr fetchIntervalDefault
          else P (Getenv env ''LIVEPEER_EXPORTER_FETCH_INTERVAL'')) = Inr fi"
    and "(if Getenv env ''LIVEPEER_EXPORTER_FETCH_TEST_STREAMS_INTERVAL'' = []
          then Inr testStreamsFetchIntervalDefault
          else P (Getenv env ''LIVEPEER_EXPORTER_FETCH_TEST_STREAMS_INTERVAL'')) = Inr tsi"
    and "Getenv env ''LIVEPEER_EXPORTER_UPDATE_INTERVAL'' \<noteq> []"
    and "P (Getenv env ''LIVEPEER_EXPORTER_UPDATE_INTERVAL'') = Inl err"
  shows "main P L env =
     ([Println ''Starting Livepeer exporter...'',
       Fatal (''failed to parse 'LIVEPEER_EXPORTER_UPDATE_INTERVAL' environment variable: '' @ err)],
      Exit 1)"
  using assms by (simp add: main_def)

lemma main_configured:
  assumes "Getenv env ''LIVEPEER_EXPORTER_ORCHESTRATOR_ADDRESS'' \<noteq> []"
    and "(if Getenv env ''LIVEPEER_EXPORTER_FETCH_INTERVAL'' = [] then Inr fetchIntervalDefault
          else P (Getenv env ''LIVEPEER_EXPORTER_FETCH_INTERVAL'')) = Inr fi"
    and "(if Getenv env ''LIVEPEER_EXPORTER_FETCH_TEST_STREAMS_INTERVAL'' = []
          then Inr testStreamsFetchIntervalDefault
          else P (Getenv env ''LIVEPEER_EXPORTER_FETCH_TEST_STREAMS_INTERVAL'')) = Inr tsi"
    and "(if Getenv env ''LIVEPEER_EXPORTER_UPDATE_INTERVAL'' = [] then Inr updateIntervalDefault
          else P (Getenv env ''LIVEPEER_EXPORTER_UPDATE_INTERVAL'')) = Inr ui"
  shows "main P L env =
     ([Println ''Starting Livepeer exporter...'',
       Println ''Setting up sub exporters...'',
       NewOrchInfoExporter (Getenv env ''LIVEPEER_EXPORTER_ORCHESTRATOR_ADDRESS'') fi ui
         (Getenv env ''LIVEPEER_EXPORTER_ORCHESTRATOR_ADDRESS_SECONDARY''),
       NewOrchScoreExporter (Getenv env ''LIVEPEER_EXPORTER_ORCHESTRATOR_ADDRESS'') fi ui,
       NewOrchDelegatorsExporter (Getenv env ''LIVEPEER_EXPORTER_ORCHESTRATOR_ADDRESS'') fi ui,
       NewOrchTestStreamsExporter (Getenv env ''LIVEPEER_EXPORTER_ORCHESTRATOR_ADDRESS'') tsi ui,
       NewOrchTicketsExporter (Getenv env ''LIVEPEER_EXPORTER_ORCHESTRATOR_ADDRESS'') fi ui,
       Println ''Starting sub exporters...'',
       Start OrchInfo, Start OrchScore, Start OrchDelegators, Start OrchTestStreams,
       Start OrchTickets,
       Println ''Exposing metrics via HTTP on port 9153'',
       Handle ''/metrics'',
       Listen '':9153''],
      (case L '':9153'' of None \<Rightarrow> Serves | Some err \<Rightarrow> Returns))"
  using assms unfolding main_def Let_def
  by (simp split: option.split)

lemma config_cases:
  obtains
    (no_address) "Getenv env ''LIVEPEER_EXPORTER_ORCHESTRATOR_ADDRESS'' = []"
  | (bad_fetch) err where
      "Getenv env ''LIVEPEER_EXPORTER_ORCHESTRATOR_ADDRESS'' \<noteq> []"
      "Getenv env ''LIVEPEER_EXPORTER_FETCH_INTERVAL'' \<noteq> []"
      "P (Getenv env ''LIVEPEER_EXPORTER_FETCH_INTERVAL'') = Inl err"
  | (bad_test_streams) fi err where
      "Getenv env ''LIVEPEER_EXPORTER_ORCHESTRATOR_ADDRESS'' \<noteq> []"
      "(if Getenv env ''LIVEPEER_EXPORTER_FETCH_INTERVAL'' = [] then Inr fetchIntervalDefault
        else P (Getenv env ''LIVEPEER_EXPORTER_FETCH_INTERVAL'')) = Inr fi"
      "Getenv env ''LIVEPEER_EXPORTER_FETCH_TEST_STREAMS_INTERVAL'' \<noteq> []"
      "P (Getenv env ''LIVEPEER_EXPORTER_FETCH_TEST_STREAMS_INTERVAL'') = Inl err"
  | (bad_update) fi tsi err where
      "Getenv env ''LIVEPEER_EXPORTER_ORCHESTRATOR_ADDRESS'' \<noteq> []"
      "(if Getenv env ''LIVEPEER_EXPORTER_FETCH_INTERVAL'' = [] then Inr fetchIntervalDefault
        else P (Getenv env ''LIVEPEER_EXPORTER_FETCH_INTERVAL'')) = Inr fi"
      "(if Getenv env ''LIVEPEER_EXPORTER_FETCH_TEST_STREAMS_INTERVAL'' = []
        then Inr testStreamsFetchIntervalDefault
        else P (Getenv env ''LIVEPEER_EXPORTER_FETCH_TEST_STREAMS_INTERVAL'')) = Inr tsi"
      "Getenv env ''LIVEPEER_EXPORTER_UPDATE_INTERVAL'' \<noteq> []"
      "P (Getenv env ''LIVEPEER_EXPORTER_UPDATE_INTERVAL'') = Inl err"
  | (configured) fi tsi ui where
      "Getenv env ''LIVEPEER_EXPORTER_ORCHESTRATOR_ADDRESS'' \<noteq> []"
      "(if Getenv env ''LIVEPEER_EXPORTER_FETCH_INTERVAL'' = [] then Inr fetchIntervalDefault
        else P (Getenv env ''LIVEPEER_EXPORTER_FETCH_INTERVAL'')) = Inr fi"
      "(if Getenv env ''LIVEPEER_EXPORTER_FETCH_TEST_STREAMS_INTERVAL'' = []
        then Inr testStreamsFetchIntervalDefault
        else P (Getenv env ''LIVEPEER_EXPORTER_FETCH_TEST_STREAMS_INTERVAL'')) = Inr tsi"
      "(if Getenv env ''LIVEPEER_EXPORTER_UPDATE_INTERVAL'' = [] then Inr updateIntervalDefault
        else P (Getenv env ''LIVEPEER_EXPORTER_UPDATE_INTERVAL'')) = Inr ui"
proof -
  let ?A = "Getenv env ''LIVEPEER_EXPORTER_ORCHESTRATOR_ADDRESS''"
  let ?F = "Getenv env ''LIVEPEER_EXPORTER_FETCH_INTERVAL''"
  let ?T = "Getenv env ''LIVEPEER_EXPORTER_FETCH_TEST_STREAMS_INTERVAL''"
  let ?U = "Getenv env ''LIVEPEER_EXPORTER_UPDATE_INTERVAL''"
  show thesis
  proof (cases "?A = []")
    case True
    then show thesis using no_address by blast
  next
    case a: False
    show thesis
    proof (cases "if ?F = [] then Inr fetchIntervalDefault else P ?F")
      case (Inl e)
      then have "?F \<noteq> []" "P ?F = Inl e" by (auto split: if_splits)
      with a show thesis using bad_fetch by blast
    next
      case f: (Inr fi)
      show thesis
      proof (cases "if ?T = [] then Inr testStreamsFetchIntervalDefault else P ?T")
        case (Inl e)
        then have "?T \<noteq> []" "P ?T = Inl e" by (auto split: if_splits)
        with a f show thesis using bad_test_streams by blast
      next
        case ts: (Inr tsi)
        show thesis
        proof (cases "if ?U = [] then Inr updateIntervalDefault else P ?U")
          case (Inl e)
          then have "?U \<noteq> []" "P ?U = Inl e" by (auto split: if_splits)
          with a f ts show thesis using bad_update by blast
        next
          case (Inr ui)
          with a f ts show thesis using configured by blast
        qed
      qed
    qed
  qed
qed


subsection \<open>Configuration errors\<close>

text \<open>
  Claim C1. If \<^verbatim>\<open>LIVEPEER_EXPORTER_ORCHESTRATOR_ADDRESS\<close> is unset or the empty string, the
  run ends in \<^verbatim>\<open>log.Fatal\<close> with exit status 1, and the trace holds no constructor call,
  no \<^verbatim>\<open>Start()\<close> and no call of \<^verbatim>\<open>http.ListenAndServe\<close>: the process dies before any
  sub-exporter loop is started and before the listener is opened.
\<close>

theorem missing_address_fatal:
  assumes "env ''LIVEPEER_EXPORTER_ORCHESTRATOR_ADDRESS'' = None \<or>
           env ''LIVEPEER_EXPORTER_ORCHESTRATOR_ADDRESS'' = Some []"
    and run: "main P L env = (t, out)"
  shows "out = Exit 1 \<and> exitStatus out = Some 1 \<and>
         last t = Fatal '''LIVEPEER_EXPORTER_ORCHESTRATOR_ADDRESS' environment variable should be set'' \<and>
         (\<forall>e \<in> set t. \<not> isNew e \<and> \<not> isStart e \<and> \<not> isListen e)"
proof -
  from assms(1) have "Getenv env ''LIVEPEER_EXPORTER_ORCHESTRATOR_ADDRESS'' = []"
    by (auto simp: Getenv_def)
  from main_no_address [where P = P and L = L, OF this] run show ?thesis
    by auto
qed

theorem missing_address_fatal_witness:
  "(Map.empty :: string \<rightharpoonup> string) ''LIVEPEER_EXPORTER_ORCHESTRATOR_ADDRESS'' = None \<and>
   main parseTable (\<lambda>a. None) Map.empty =
     ([Println ''Starting Livepeer exporter...'',
       Fatal '''LIVEPEER_EXPORTER_ORCHESTRATOR_ADDRESS' environment variable should be set''],
      Exit 1) \<and>
   exitStatus (snd (main parseTable (\<lambda>a. None) Map.empty)) = Some 1 \<and>
   filter (\<lambda>e. isNew e \<or> isStart e \<or> isListen e)
     (fst (main parseTable (\<lambda>a. None) Map.empty)) = []"
  using missing_address_fatal [where env = Map.empty and P = parseTable and L = "\<lambda>a. None",
      OF _ prod.collapse [symmetric]]
  by (simp add: main_def Getenv_def)

text \<open>
  Claim C3. If any of the three duration variables is set to a non-empty string that
  \<^verbatim>\<open>time.ParseDuration\<close> rejects, the run ends in a fatal log line with exit status 1 and
  no sub-exporter is ever constructed (so no default interval is used in its place).
  When the orchestrator address is present, the fatal message names a rejected duration
  variable and carries the parser's error; otherwise the address check has already ended
  the run.
\<close>

theorem unparseable_duration_fatal:
  assumes var: "var \<in> {''LIVEPEER_EXPORTER_FETCH_INTERVAL'',
                   ''LIVEPEER_EXPORTER_FETCH_TEST_STREAMS_INTERVAL'',
                   ''LIVEPEER_EXPORTER_UPDATE_INTERVAL''}"
    and nonempty: "Getenv env var \<noteq> []"
    and bad: "P (Getenv env var) = Inl err"
    and run: "main P L env = (t, out)"
  shows "out = Exit 1 \<and> exitStatus out = Some 1 \<and>
         (\<forall>e \<in> set t. \<not> isNew e \<and> \<not> isStart e \<and> \<not> isListen e) \<and>
         (\<exists>msg. last t = Fatal msg) \<and>
         (Getenv env ''LIVEPEER_EXPORTER_ORCHESTRATOR_ADDRESS'' \<noteq> [] \<longrightarrow>
           (\<exists>v e. v \<in> {''LIVEPEER_EXPORTER_FETCH_INTERVAL'',
                        ''LIVEPEER_EXPORTER_FETCH_TEST_STREAMS_INTERVAL'',
                        ''LIVEPEER_EXPORTER_UPDATE_INTERVAL''} \<and>
                  Getenv env v \<noteq> [] \<and> P (Getenv env v) = Inl e \<and>
                  last t = Fatal (''failed to parse '' @ [CHR 0x27] @ v @ [CHR 0x27] @
                                  '' environment variable: '' @ e)))"
proof (cases rule: config_cases [where env = env and P = P])
  case no_address
  from main_no_address [where P = P and L = L, OF this] run no_address show ?thesis
    by auto
next
  case (bad_fetch e)
  have "\<exists>v e. v \<in> {''LIVEPEER_EXPORTER_FETCH_INTERVAL'',
                        ''LIVEPEER_EXPORTER_FETCH_TEST_STREAMS_INTERVAL'',
                        ''LIVEPEER_EXPORTER_UPDATE_INTERVAL''} \<and>
                  Getenv env v \<noteq> [] \<and> P (Getenv env v) = Inl e \<and>
                  last t = Fatal (''failed to parse '' @ [CHR 0x27] @ v @ [CHR 0x27] @
                                  '' environment variable: '' @ e)"
    apply (rule exI [of _ "''LIVEPEER_EXPORTER_FETCH_INTERVAL''"])
    apply (rule exI [of _ e])
    using main_bad_fetch_interval [where P = P and L = L, OF bad_fetch] run bad_fetch
    apply simp
    done
  moreover from main_bad_fetch_interval [where P = P and L = L, OF bad_fetch] run
  have "out = Exit 1 \<and> exitStatus out = Some 1 \<and>
         (\<forall>e \<in> set t. \<not> isNew e \<and> \<not> isStart e \<and> \<not> isListen e) \<and>
         (\<exists>msg. last t = Fatal msg)"
    by auto
  ultimately show ?thesis by blast
next
  case (bad_test_streams fi e)
  have "\<exists>v e. v \<in> {''LIVEPEER_EXPORTER_FETCH_INTERVAL'',
                        ''LIVEPEER_EXPORTER_FETCH_TEST_STREAMS_INTERVAL'',
                        ''LIVEPEER_EXPORTER_UPDATE_INTERVAL''} \<and>
                  Getenv env v \<noteq> [] \<and> P (Getenv env v) = Inl e \<and>
                  last t = Fatal (''failed to parse '' @ [CHR 0x27] @ v @ [CHR 0x27] @
                                  '' environment variable: '' @ e)"
    apply (rule exI [of _ "''LIVEPEER_EXPORTER_FETCH_TEST_STREAMS_INTERVAL''"])
    apply (rule exI [of _ e])
    using main_bad_test_streams_interval [where P = P and L = L, OF bad_test_streams] run bad_test_streams(3,4)
    apply simp
    done
  moreover from main_bad_test_streams_interval [where P = P and L = L, OF bad_test_streams] run
  have "out = Exit 1 \<and> exitStatus out = Some 1 \<and>
         (\<forall>e \<in> set t. \<not> isNew e \<and> \<not> isStart e \<and> \<not> isListen e) \<and>
         (\<exists>msg. last t = Fatal msg)"
    by auto
  ultimately show ?thesis by blast
next
  case (bad_update fi tsi e)
  have "\<exists>v e. v \<in> {''LIVEPEER_EXPORTER_FETCH_INTERVAL'',
                        ''LIVEPEER_EXPORTER_FETCH_TEST_STREAMS_INTERVAL'',
                        ''LIVEPEER_EXPORTER_UPDATE_INTERVAL''} \<and>
                  Getenv env v \<noteq> [] \<and> P (Getenv env v) = Inl e \<and>
                  last t = Fatal (''failed to parse '' @ [CHR 0x27] @ v @ [CHR 0x27] @
                                  '' environment variable: '' @ e)"
    apply (rule exI [of _ "''LIVEPEER_EXPORTER_UPDATE_INTERVAL''"])
    apply (rule exI [of _ e])
    using main_bad_update_interval [where P = P and L = L, OF bad_update] run bad_update(4,5)
    apply simp
    done
  moreover from main_bad_update_interval [where P = P and L = L, OF bad_update] run
  have "out = Exit 1 \<and> exitStatus out = Some 1 \<and>
         (\<forall>e \<in> set t. \<not> isNew e \<and> \<not> isStart e \<and> \<not> isListen e) \<and>
         (\<exists>msg. last t = Fatal msg)"
    by auto
  ultimately show ?thesis by blast
next
  case (configured fi tsi ui)
  from var consider "var = ''LIVEPEER_EXPORTER_FETCH_INTERVAL''"
    | "var = ''LIVEPEER_EXPORTER_FETCH_TEST_STREAMS_INTERVAL''"
    | "var = ''LIVEPEER_EXPORTER_UPDATE_INTERVAL''"
    by blast
  then have False
  proof cases
    case 1
    with nonempty bad configured(2) show False by simp
  next
    case 2
    with nonempty bad configured(3) show False by simp
  next
    case 3
    with nonempty bad configured(4) show False by simp
  qed
  then show ?thesis ..
qed


theorem unparseable_duration_fatal_witness:
  "Getenv [''LIVEPEER_EXPORTER_ORCHESTRATOR_ADDRESS'' \<mapsto> ''0xabc'',
           ''LIVEPEER_EXPORTER_UPDATE_INTERVAL'' \<mapsto> ''notaduration'']
     ''LIVEPEER_EXPORTER_UPDATE_INTERVAL'' = ''notaduration'' \<and>
   parseTable ''notaduration'' = Inl ''time: invalid duration'' \<and>
   main parseTable (\<lambda>a. None)
     [''LIVEPEER_EXPORTER_ORCHESTRATOR_ADDRESS'' \<mapsto> ''0xabc'',
      ''LIVEPEER_EXPORTER_UPDATE_INTERVAL'' \<mapsto> ''notaduration''] =
     ([Println ''Starting Livepeer exporter...'',
       Fatal ''failed to parse 'LIVEPEER_EXPORTER_UPDATE_INTERVAL' environment variable: time: invalid duration''],
      Exit 1)"
proof -
  let ?env = "[''LIVEPEER_EXPORTER_ORCHESTRATOR_ADDRESS'' \<mapsto> ''0xabc'',
               ''LIVEPEER_EXPORTER_UPDATE_INTERVAL'' \<mapsto> ''notaduration'']"
  let ?run = "main parseTable (\<lambda>a. None) ?env"
  have v: "''LIVEPEER_EXPORTER_UPDATE_INTERVAL'' \<in> {''LIVEPEER_EXPORTER_FETCH_INTERVAL'',
                   ''LIVEPEER_EXPORTER_FETCH_TEST_STREAMS_INTERVAL'',
                   ''LIVEPEER_EXPORTER_UPDATE_INTERVAL''}"
    by simp
  have g: "Getenv ?env ''LIVEPEER_EXPORTER_UPDATE_INTERVAL'' = ''notaduration''"
    by (simp add: Getenv_def)
  have p: "parseTable ''notaduration'' = Inl ''time: invalid duration''"
    by (simp add: parseTable_def)
  have n: "Getenv ?env ''LIVEPEER_EXPORTER_UPDATE_INTERVAL'' \<noteq> []"
    by (simp add: g)
  have b: "parseTable (Getenv ?env ''LIVEPEER_EXPORTER_UPDATE_INTERVAL'') = Inl ''time: invalid duration''"
    by (simp add: g p)
  have a: "Getenv ?env ''LIVEPEER_EXPORTER_ORCHESTRATOR_ADDRESS'' \<noteq> []"
    by (simp add: Getenv_def)
  have f: "Getenv ?env ''LIVEPEER_EXPORTER_FETCH_INTERVAL'' = []"
    by (simp add: Getenv_def)
  have s: "Getenv ?env ''LIVEPEER_EXPORTER_FETCH_TEST_STREAMS_INTERVAL'' = []"
    by (simp add: Getenv_def)
  from unparseable_duration_fatal [where P = parseTable and L = "\<lambda>a. None", OF v n b prod.collapse [symmetric]]
  have "snd ?run = Exit 1" by simp
  moreover have "fst ?run = [Println ''Starting Livepeer exporter...'',
       Fatal ''failed to parse 'LIVEPEER_EXPORTER_UPDATE_INTERVAL' environment variable: time: invalid duration'']"
    using a f s g p by (simp add: main_def)
  ultimately have "?run = ([Println ''Starting Livepeer exporter...'',
       Fatal ''failed to parse 'LIVEPEER_EXPORTER_UPDATE_INTERVAL' environment variable: time: invalid duration''], Exit 1)"
    by (simp add: prod_eq_iff)
  with g p show ?thesis by blast
qed


subsection \<open>Intervals\<close>

text \<open>
  Claim C2. For every configuration with the orchestrator address present and each
  duration variable either unset or set to a string that \<^verbatim>\<open>time.ParseDuration\<close> accepts,
  the run gets past the configuration and constructs the sub-exporters with the intervals
  \<open>fi\<close>, \<open>tsi\<close> and \<open>ui\<close>, and an optional duration variable that is unset or empty
  yields exactly its default: 1 minute (60 * 10^9 ns) for
  \<^verbatim>\<open>LIVEPEER_EXPORTER_FETCH_INTERVAL\<close>, 15 minutes for
  \<^verbatim>\<open>LIVEPEER_EXPORTER_FETCH_TEST_STREAMS_INTERVAL\<close>, 30 seconds for
  \<^verbatim>\<open>LIVEPEER_EXPORTER_UPDATE_INTERVAL\<close>.
\<close>

theorem unset_interval_default:
  assumes addr: "Getenv env ''LIVEPEER_EXPORTER_ORCHESTRATOR_ADDRESS'' \<noteq> []"
    and fi: "(if Getenv env ''LIVEPEER_EXPORTER_FETCH_INTERVAL'' = [] then Inr fetchIntervalDefault
          else P (Getenv env ''LIVEPEER_EXPORTER_FETCH_INTERVAL'')) = Inr fi"
    and tsi: "(if Getenv env ''LIVEPEER_EXPORTER_FETCH_TEST_STREAMS_INTERVAL'' = []
          then Inr testStreamsFetchIntervalDefault
          else P (Getenv env ''LIVEPEER_EXPORTER_FETCH_TEST_STREAMS_INTERVAL'')) = Inr tsi"
    and ui: "(if Getenv env ''LIVEPEER_EXPORTER_UPDATE_INTERVAL'' = [] then Inr updateIntervalDefault
          else P (Getenv env ''LIVEPEER_EXPORTER_UPDATE_INTERVAL'')) = Inr ui"
    and run: "main P L env = (t, out)"
  shows "out \<noteq> Exit 1 \<and>
     filter isNew t =
       [NewOrchInfoExporter (Getenv env ''LIVEPEER_EXPORTER_ORCHESTRATOR_ADDRESS'') fi ui
          (Getenv env ''LIVEPEER_EXPORTER_ORCHESTRATOR_ADDRESS_SECONDARY''),
        NewOrchScoreExporter (Getenv env ''LIVEPEER_EXPORTER_ORCHESTRATOR_ADDRESS'') fi ui,
        NewOrchDelegatorsExporter (Getenv env ''LIVEPEER_EXPORTER_ORCHESTRATOR_ADDRESS'') fi ui,
        NewOrchTestStreamsExporter (Getenv env ''LIVEPEER_EXPORTER_ORCHESTRATOR_ADDRESS'') tsi ui,
        NewOrchTicketsExporter (Getenv env ''LIVEPEER_EXPORTER_ORCHESTRATOR_ADDRESS'') fi ui] \<and>
     (Getenv env ''LIVEPEER_EXPORTER_FETCH_INTERVAL'' = [] \<longrightarrow>
        fi = fetchIntervalDefault \<and> sint fi = 60 * 1000000000) \<and>
     (Getenv env ''LIVEPEER_EXPORTER_FETCH_TEST_STREAMS_INTERVAL'' = [] \<longrightarrow>
        tsi = testStreamsFetchIntervalDefault \<and> sint tsi = 15 * 60 * 1000000000) \<and>
     (Getenv env ''LIVEPEER_EXPORTER_UPDATE_INTERVAL'' = [] \<longrightarrow>
        ui = updateIntervalDefault \<and> sint ui = 30 * 1000000000)"
proof -
  have d1: "sint fetchIntervalDefault = 60 * 1000000000"
    by (simp add: fetchIntervalDefault_def Minute_def Second_def Millisecond_def
        Microsecond_def Nanosecond_def)
  have d2: "sint testStreamsFetchIntervalDefault = 15 * 60 * 1000000000"
    by (simp add: testStreamsFetchIntervalDefault_def Minute_def Second_def Millisecond_def
        Microsecond_def Nanosecond_def)
  have d3: "sint updateIntervalDefault = 30 * 1000000000"
    by (simp add: updateIntervalDefault_def Second_def Millisecond_def
        Microsecond_def Nanosecond_def)
  from main_configured [where P = P and L = L, OF addr fi tsi ui] run
  have t: "filter isNew t =
       [NewOrchInfoExporter (Getenv env ''LIVEPEER_EXPORTER_ORCHESTRATOR_ADDRESS'') fi ui
          (Getenv env ''LIVEPEER_EXPORTER_ORCHESTRATOR_ADDRESS_SECONDARY''),
        NewOrchScoreExporter (Getenv env ''LIVEPEER_EXPORTER_ORCHESTRATOR_ADDRESS'') fi ui,
        NewOrchDelegatorsExporter (Getenv env ''LIVEPEER_EXPORTER_ORCHESTRATOR_ADDRESS'') fi ui,
        NewOrchTestStreamsExporter (Getenv env ''LIVEPEER_EXPORTER_ORCHESTRATOR_ADDRESS'') tsi ui,
        NewOrchTicketsExporter (Getenv env ''LIVEPEER_EXPORTER_ORCHESTRATOR_ADDRESS'') fi ui]"
    and out: "out = (case L '':9153'' of None \<Rightarrow> Serves | Some err \<Rightarrow> Returns)"
    by auto
  from out have o: "out \<noteq> Exit 1" by (simp split: option.split)
  have f: "Getenv env ''LIVEPEER_EXPORTER_FETCH_INTERVAL'' = [] \<longrightarrow>
        fi = fetchIntervalDefault \<and> sint fi = 60 * 1000000000"
    using fi d1 by auto
  have s: "Getenv env ''LIVEPEER_EXPORTER_FETCH_TEST_STREAMS_INTERVAL'' = [] \<longrightarrow>
        tsi = testStreamsFetchIntervalDefault \<and> sint tsi = 15 * 60 * 1000000000"
    using tsi d2 by auto
  have u: "Getenv env ''LIVEPEER_EXPORTER_UPDATE_INTERVAL'' = [] \<longrightarrow>
        ui = updateIntervalDefault \<and> sint ui = 30 * 1000000000"
    using ui d3 by auto
  from o t f s u show ?thesis by blast
qed

theorem unset_interval_default_witness:
  "Getenv [''LIVEPEER_EXPORTER_ORCHESTRATOR_ADDRESS'' \<mapsto> ''0xabc'']
     ''LIVEPEER_EXPORTER_ORCHESTRATOR_ADDRESS'' \<noteq> [] \<and>
   Getenv [''LIVEPEER_EXPORTER_ORCHESTRATOR_ADDRESS'' \<mapsto> ''0xabc'']
     ''LIVEPEER_EXPORTER_FETCH_INTERVAL'' = [] \<and>
   Getenv [''LIVEPEER_EXPORTER_ORCHESTRATOR_ADDRESS'' \<mapsto> ''0xabc'']
     ''LIVEPEER_EXPORTER_FETCH_TEST_STREAMS_INTERVAL'' = [] \<and>
   Getenv [''LIVEPEER_EXPORTER_ORCHESTRATOR_ADDRESS'' \<mapsto> ''0xabc'']
     ''LIVEPEER_EXPORTER_UPDATE_INTERVAL'' = [] \<and>
   snd (main parseTable (\<lambda>a. None) [''LIVEPEER_EXPORTER_ORCHESTRATOR_ADDRESS'' \<mapsto> ''0xabc''])
     \<noteq> Exit 1 \<and>
   filter isNew (fst (main parseTable (\<lambda>a. None)
       [''LIVEPEER_EXPORTER_ORCHESTRATOR_ADDRESS'' \<mapsto> ''0xabc''])) =
     [NewOrchInfoExporter ''0xabc'' 60000000000 30000000000 [],
      NewOrchScoreExporter ''0xabc'' 60000000000 30000000000,
      NewOrchDelegatorsExporter ''0xabc'' 60000000000 30000000000,
      NewOrchTestStreamsExporter ''0xabc'' 900000000000 30000000000,
      NewOrchTicketsExporter ''0xabc'' 60000000000 30000000000] \<and>
   sint (60000000000 :: Duration) = 60 * 1000000000 \<and>
   sint (900000000000 :: Duration) = 15 * 60 * 1000000000 \<and>
   sint (30000000000 :: Duration) = 30 * 1000000000"
proof -
  let ?env = "[''LIVEPEER_EXPORTER_ORCHESTRATOR_ADDRESS'' \<mapsto> ''0xabc'']"
  have a: "Getenv ?env ''LIVEPEER_EXPORTER_ORCHESTRATOR_ADDRESS'' \<noteq> []"
    by (simp add: Getenv_def)
  have a': "Getenv ?env ''LIVEPEER_EXPORTER_ORCHESTRATOR_ADDRESS'' = ''0xabc''"
    "Getenv ?env ''LIVEPEER_EXPORTER_ORCHESTRATOR_ADDRESS_SECONDARY'' = []"
    by (simp_all add: Getenv_def)
  have g: "Getenv ?env ''LIVEPEER_EXPORTER_FETCH_INTERVAL'' = []"
    "Getenv ?env ''LIVEPEER_EXPORTER_FETCH_TEST_STREAMS_INTERVAL'' = []"
    "Getenv ?env ''LIVEPEER_EXPORTER_UPDATE_INTERVAL'' = []"
    by (simp_all add: Getenv_def)
  have f: "(if Getenv ?env ''LIVEPEER_EXPORTER_FETCH_INTERVAL'' = [] then Inr fetchIntervalDefault
          else parseTable (Getenv ?env ''LIVEPEER_EXPORTER_FETCH_INTERVAL'')) = Inr 60000000000"
    by (simp add: g fetchIntervalDefault_def Minute_def Second_def Millisecond_def
        Microsecond_def Nanosecond_def)
  have s: "(if Getenv ?env ''LIVEPEER_EXPORTER_FETCH_TEST_STREAMS_INTERVAL'' = []
          then Inr testStreamsFetchIntervalDefault
          else parseTable (Getenv ?env ''LIVEPEER_EXPORTER_FETCH_TEST_STREAMS_INTERVAL'')) =
          Inr 900000000000"
    by (simp add: g testStreamsFetchIntervalDefault_def Minute_def Second_def Millisecond_def
        Microsecond_def Nanosecond_def)
  have u: "(if Getenv ?env ''LIVEPEER_EXPORTER_UPDATE_INTERVAL'' = [] then Inr updateIntervalDefault
          else parseTable (Getenv ?env ''LIVEPEER_EXPORTER_UPDATE_INTERVAL'')) = Inr 30000000000"
    by (simp add: g updateIntervalDefault_def Second_def Millisecond_def
        Microsecond_def Nanosecond_def)
  note th = unset_interval_default [where P = parseTable and L = "\<lambda>a. None",
      OF a f s u prod.collapse [symmetric]]
  from th have o: "snd (main parseTable (\<lambda>a. None) ?env) \<noteq> Exit 1"
    by blast
  from th a' have n: "filter isNew (fst (main parseTable (\<lambda>a. None) ?env)) =
     [NewOrchInfoExporter ''0xabc'' 60000000000 30000000000 [],
      NewOrchScoreExporter ''0xabc'' 60000000000 30000000000,
      NewOrchDelegatorsExporter ''0xabc'' 60000000000 30000000000,
      NewOrchTestStreamsExporter ''0xabc'' 900000000000 30000000000,
      NewOrchTicketsExporter ''0xabc'' 60000000000 30000000000]"
    by simp
  have v: "sint (60000000000 :: Duration) = 60 * 1000000000"
    "sint (900000000000 :: Duration) = 15 * 60 * 1000000000"
    "sint (30000000000 :: Duration) = 30 * 1000000000"
    by simp_all
  from a g o n v show ?thesis by blast
qed

text \<open>
  Claim C7. For every configuration with the orchestrator address present and each
  duration variable either unset or accepted, the run gets past the configuration and
  constructs exactly five sub-exporters, in source order: the test-streams exporter with
  the interval \<open>tsi\<close> of \<^verbatim>\<open>LIVEPEER_EXPORTER_FETCH_TEST_STREAMS_INTERVAL\<close>, the info, score,
  delegators and tickets exporters with the interval \<open>fi\<close> of
  \<^verbatim>\<open>LIVEPEER_EXPORTER_FETCH_INTERVAL\<close>, and all five with the same update interval \<open>ui\<close>
  (and the same orchestrator address; only the info exporter gets the secondary address).
  Each of the five is then started once.
\<close>

theorem exporters_get_their_intervals:
  assumes addr: "Getenv env ''LIVEPEER_EXPORTER_ORCHESTRATOR_ADDRESS'' \<noteq> []"
    and fi: "(if Getenv env ''LIVEPEER_EXPORTER_FETCH_INTERVAL'' = [] then Inr fetchIntervalDefault
          else P (Getenv env ''LIVEPEER_EXPORTER_FETCH_INTERVAL'')) = Inr fi"
    and tsi: "(if Getenv env ''LIVEPEER_EXPORTER_FETCH_TEST_STREAMS_INTERVAL'' = []
          then Inr testStreamsFetchIntervalDefault
          else P (Getenv env ''LIVEPEER_EXPORTER_FETCH_TEST_STREAMS_INTERVAL'')) = Inr tsi"
    and ui: "(if Getenv env ''LIVEPEER_EXPORTER_UPDATE_INTERVAL'' = [] then Inr updateIntervalDefault
          else P (Getenv env ''LIVEPEER_EXPORTER_UPDATE_INTERVAL'')) = Inr ui"
    and run: "main P L env = (t, out)"
  shows "out \<noteq> Exit 1 \<and>
     filter isNew t =
       [NewOrchInfoExporter (Getenv env ''LIVEPEER_EXPORTER_ORCHESTRATOR_ADDRESS'') fi ui
          (Getenv env ''LIVEPEER_EXPORTER_ORCHESTRATOR_ADDRESS_SECONDARY''),
        NewOrchScoreExporter (Getenv env ''LIVEPEER_EXPORTER_ORCHESTRATOR_ADDRESS'') fi ui,
        NewOrchDelegatorsExporter (Getenv env ''LIVEPEER_EXPORTER_ORCHESTRATOR_ADDRESS'') fi ui,
        NewOrchTestStreamsExporter (Getenv env ''LIVEPEER_EXPORTER_ORCHESTRATOR_ADDRESS'') tsi ui,
        NewOrchTicketsExporter (Getenv env ''LIVEPEER_EXPORTER_ORCHESTRATOR_ADDRESS'') fi ui] \<and>
     filter isStart t =
       [Start OrchInfo, Start OrchScore, Start OrchDelegators, Start OrchTestStreams,
        Start OrchTickets]"
proof -
  from main_configured [where P = P and L = L, OF addr fi tsi ui] run
  have t: "t = [Println ''Starting Livepeer exporter...'',
       Println ''Setting up sub exporters...'',
       NewOrchInfoExporter (Getenv env ''LIVEPEER_EXPORTER_ORCHESTRATOR_ADDRESS'') fi ui
         (Getenv env ''LIVEPEER_EXPORTER_ORCHESTRATOR_ADDRESS_SECONDARY''),
       NewOrchScoreExporter (Getenv env ''LIVEPEER_EXPORTER_ORCHESTRATOR_ADDRESS'') fi ui,
       NewOrchDelegatorsExporter (Getenv env ''LIVEPEER_EXPORTER_ORCHESTRATOR_ADDRESS'') fi ui,
       NewOrchTestStreamsExporter (Getenv env ''LIVEPEER_EXPORTER_ORCHESTRATOR_ADDRESS'') tsi ui,
       NewOrchTicketsExporter (Getenv env ''LIVEPEER_EXPORTER_ORCHESTRATOR_ADDRESS'') fi ui,
       Println ''Starting sub exporters...'',
       Start OrchInfo, Start OrchScore, Start OrchDelegators, Start OrchTestStreams,
       Start OrchTickets,
       Println ''Exposing metrics via HTTP on port 9153'',
       Handle ''/metrics'',
       Listen '':9153'']"
    and out: "out = (case L '':9153'' of None \<Rightarrow> Serves | Some err \<Rightarrow> Returns)"
    by simp_all
  from out have "out \<noteq> Exit 1" by (simp split: option.split)
  moreover from t have "filter isNew t =
       [NewOrchInfoExporter (Getenv env ''LIVEPEER_EXPORTER_ORCHESTRATOR_ADDRESS'') fi ui
          (Getenv env ''LIVEPEER_EXPORTER_ORCHESTRATOR_ADDRESS_SECONDARY''),
        NewOrchScoreExporter (Getenv env ''LIVEPEER_EXPORTER_ORCHESTRATOR_ADDRESS'') fi ui,
        NewOrchDelegatorsExporter (Getenv env ''LIVEPEER_EXPORTER_ORCHESTRATOR_ADDRESS'') fi ui,
        NewOrchTestStreamsExporter (Getenv env ''LIVEPEER_EXPORTER_ORCHESTRATOR_ADDRESS'') tsi ui,
        NewOrchTicketsExporter (Getenv env ''LIVEPEER_EXPORTER_ORCHESTRATOR_ADDRESS'') fi ui]"
    by simp
  moreover from t have "filter isStart t =
       [Start OrchInfo, Start OrchScore, Start OrchDelegators, Start OrchTestStreams,
        Start OrchTickets]"
    by simp
  ultimately show ?thesis by blast
qed

theorem exporters_get_their_intervals_witness:
  "parseTable ''2m'' = Inr 120000000000 \<and>
   parseTable ''10s'' = Inr 10000000000 \<and>
   snd (main parseTable (\<lambda>a. None)
     [''LIVEPEER_EXPORTER_ORCHESTRATOR_ADDRESS'' \<mapsto> ''0xabc'',
      ''LIVEPEER_EXPORTER_ORCHESTRATOR_ADDRESS_SECONDARY'' \<mapsto> ''0xdef'',
      ''LIVEPEER_EXPORTER_FETCH_INTERVAL'' \<mapsto> ''2m'',
      ''LIVEPEER_EXPORTER_UPDATE_INTERVAL'' \<mapsto> ''10s'']) \<noteq> Exit 1 \<and>
   filter isNew (fst (main parseTable (\<lambda>a. None)
     [''LIVEPEER_EXPORTER_ORCHESTRATOR_ADDRESS'' \<mapsto> ''0xabc'',
      ''LIVEPEER_EXPORTER_ORCHESTRATOR_ADDRESS_SECONDARY'' \<mapsto> ''0xdef'',
      ''LIVEPEER_EXPORTER_FETCH_INTERVAL'' \<mapsto> ''2m'',
      ''LIVEPEER_EXPORTER_UPDATE_INTERVAL'' \<mapsto> ''10s''])) =
     [NewOrchInfoExporter ''0xabc'' 120000000000 10000000000 ''0xdef'',
      NewOrchScoreExporter ''0xabc'' 120000000000 10000000000,
      NewOrchDelegatorsExporter ''0xabc'' 120000000000 10000000000,
      NewOrchTestStreamsExporter ''0xabc'' 900000000000 10000000000,
      NewOrchTicketsExporter ''0xabc'' 120000000000 10000000000] \<and>
   filter isStart (fst (main parseTable (\<lambda>a. None)
     [''LIVEPEER_EXPORTER_ORCHESTRATOR_ADDRESS'' \<mapsto> ''0xabc'',
      ''LIVEPEER_EXPORTER_ORCHESTRATOR_ADDRESS_SECONDARY'' \<mapsto> ''0xdef'',
      ''LIVEPEER_EXPORTER_FETCH_INTERVAL'' \<mapsto> ''2m'',
      ''LIVEPEER_EXPORTER_UPDATE_INTERVAL'' \<mapsto> ''10s''])) =
     [Start OrchInfo, Start OrchScore, Start OrchDelegators, Start OrchTestStreams,
      Start OrchTickets]"
proof -
  let ?env = "[''LIVEPEER_EXPORTER_ORCHESTRATOR_ADDRESS'' \<mapsto> ''0xabc'',
      ''LIVEPEER_EXPORTER_ORCHESTRATOR_ADDRESS_SECONDARY'' \<mapsto> ''0xdef'',
      ''LIVEPEER_EXPORTER_FETCH_INTERVAL'' \<mapsto> ''2m'',
      ''LIVEPEER_EXPORTER_UPDATE_INTERVAL'' \<mapsto> ''10s'']"
  have p2: "parseTable ''2m'' = Inr 120000000000"
    by (simp add: parseTable_def Minute_def Second_def Millisecond_def Microsecond_def
        Nanosecond_def)
  have p10: "parseTable ''10s'' = Inr 10000000000"
    by (simp add: parseTable_def Second_def Millisecond_def Microsecond_def Nanosecond_def)
  have a: "Getenv ?env ''LIVEPEER_EXPORTER_ORCHESTRATOR_ADDRESS'' \<noteq> []"
    by (simp add: Getenv_def)
  have a': "Getenv ?env ''LIVEPEER_EXPORTER_ORCHESTRATOR_ADDRESS'' = ''0xabc''"
    "Getenv ?env ''LIVEPEER_EXPORTER_ORCHESTRATOR_ADDRESS_SECONDARY'' = ''0xdef''"
    by (simp_all add: Getenv_def)
  have f: "(if Getenv ?env ''LIVEPEER_EXPORTER_FETCH_INTERVAL'' = [] then Inr fetchIntervalDefault
          else parseTable (Getenv ?env ''LIVEPEER_EXPORTER_FETCH_INTERVAL'')) = Inr 120000000000"
    by (simp add: Getenv_def p2)
  have s: "(if Getenv ?env ''LIVEPEER_EXPORTER_FETCH_TEST_STREAMS_INTERVAL'' = []
          then Inr testStreamsFetchIntervalDefault
          else parseTable (Getenv ?env ''LIVEPEER_EXPORTER_FETCH_TEST_STREAMS_INTERVAL'')) =
          Inr 900000000000"
    by (simp add: Getenv_def testStreamsFetchIntervalDefault_def Minute_def Second_def
        Millisecond_def Microsecond_def Nanosecond_def)
  have u: "(if Getenv ?env ''LIVEPEER_EXPORTER_UPDATE_INTERVAL'' = [] then Inr updateIntervalDefault
          else parseTable (Getenv ?env ''LIVEPEER_EXPORTER_UPDATE_INTERVAL'')) = Inr 10000000000"
    by (simp add: Getenv_def p10)
  note th = exporters_get_their_intervals [where P = parseTable and L = "\<lambda>a. None",
      OF a f s u prod.collapse [symmetric]]
  from th have o: "snd (main parseTable (\<lambda>a. None) ?env) \<noteq> Exit 1"
    by blast
  from th a' have n: "filter isNew (fst (main parseTable (\<lambda>a. None) ?env)) =
     [NewOrchInfoExporter ''0xabc'' 120000000000 10000000000 ''0xdef'',
      NewOrchScoreExporter ''0xabc'' 120000000000 10000000000,
      NewOrchDelegatorsExporter ''0xabc'' 120000000000 10000000000,
      NewOrchTestStreamsExporter ''0xabc'' 900000000000 10000000000,
      NewOrchTicketsExporter ''0xabc'' 120000000000 10000000000]"
    by simp
  from th have st: "filter isStart (fst (main parseTable (\<lambda>a. None) ?env)) =
     [Start OrchInfo, Start OrchScore, Start OrchDelegators, Start OrchTestStreams,
      Start OrchTickets]"
    by blast
  from p2 p10 o n st show ?thesis by blast
qed

text \<open>
  Claim C9. When the address is present and every duration variable is either unset or set
  to a string that \<^verbatim>\<open>time.ParseDuration\<close> accepts, the run has no fatal log line and the
  sub-exporters are constructed with exactly the parsed values. Nothing is assumed about
  the values: zero and negative durations pass through unchanged, there is no range check.
\<close>

theorem accepted_duration_used_verbatim:
  assumes addr: "Getenv env ''LIVEPEER_EXPORTER_ORCHESTRATOR_ADDRESS'' \<noteq> []"
    and fi: "(if Getenv env ''LIVEPEER_EXPORTER_FETCH_INTERVAL'' = [] then Inr fetchIntervalDefault
          else P (Getenv env ''LIVEPEER_EXPORTER_FETCH_INTERVAL'')) = Inr fi"
    and tsi: "(if Getenv env ''LIVEPEER_EXPORTER_FETCH_TEST_STREAMS_INTERVAL'' = []
          then Inr testStreamsFetchIntervalDefault
          else P (Getenv env ''LIVEPEER_EXPORTER_FETCH_TEST_STREAMS_INTERVAL'')) = Inr tsi"
    and ui: "(if Getenv env ''LIVEPEER_EXPORTER_UPDATE_INTERVAL'' = [] then Inr updateIntervalDefault
          else P (Getenv env ''LIVEPEER_EXPORTER_UPDATE_INTERVAL'')) = Inr ui"
    and run: "main P L env = (t, out)"
  shows "out \<noteq> Exit 1 \<and> filter isFatal t = [] \<and>
     filter isNew t =
       [NewOrchInfoExporter (Getenv env ''LIVEPEER_EXPORTER_ORCHESTRATOR_ADDRESS'') fi ui
          (Getenv env ''LIVEPEER_EXPORTER_ORCHESTRATOR_ADDRESS_SECONDARY''),
        NewOrchScoreExporter (Getenv env ''LIVEPEER_EXPORTER_ORCHESTRATOR_ADDRESS'') fi ui,
        NewOrchDelegatorsExporter (Getenv env ''LIVEPEER_EXPORTER_ORCHESTRATOR_ADDRESS'') fi ui,
        NewOrchTestStreamsExporter (Getenv env ''LIVEPEER_EXPORTER_ORCHESTRATOR_ADDRESS'') tsi ui,
        NewOrchTicketsExporter (Getenv env ''LIVEPEER_EXPORTER_ORCHESTRATOR_ADDRESS'') fi ui]"
proof -
  from main_configured [where P = P and L = L, OF addr fi tsi ui] run
  have t: "t = [Println ''Starting Livepeer exporter...'',
       Println ''Setting up sub exporters...'',
       NewOrchInfoExporter (Getenv env ''LIVEPEER_EXPORTER_ORCHESTRATOR_ADDRESS'') fi ui
         (Getenv env ''LIVEPEER_EXPORTER_ORCHESTRATOR_ADDRESS_SECONDARY''),
       NewOrchScoreExporter (Getenv env ''LIVEPEER_EXPORTER_ORCHESTRATOR_ADDRESS'') fi ui,
       NewOrchDelegatorsExporter (Getenv env ''LIVEPEER_EXPORTER_ORCHESTRATOR_ADDRESS'') fi ui,
       NewOrchTestStreamsExporter (Getenv env ''LIVEPEER_EXPORTER_ORCHESTRATOR_ADDRESS'') tsi ui,
       NewOrchTicketsExporter (Getenv env ''LIVEPEER_EXPORTER_ORCHESTRATOR_ADDRESS'') fi ui,
       Println ''Starting sub exporters...'',
       Start OrchInfo, Start OrchScore, Start OrchDelegators, Start OrchTestStreams,
       Start OrchTickets,
       Println ''Exposing metrics via HTTP on port 9153'',
       Handle ''/metrics'',
       Listen '':9153'']"
    and out: "out = (case L '':9153'' of None \<Rightarrow> Serves | Some err \<Rightarrow> Returns)"
    by simp_all
  from out have "out \<noteq> Exit 1" by (simp split: option.split)
  moreover from t have "filter isFatal t = []" by simp
  moreover from t have "filter isNew t =
       [NewOrchInfoExporter (Getenv env ''LIVEPEER_EXPORTER_ORCHESTRATOR_ADDRESS'') fi ui
          (Getenv env ''LIVEPEER_EXPORTER_ORCHESTRATOR_ADDRESS_SECONDARY''),
        NewOrchScoreExporter (Getenv env ''LIVEPEER_EXPORTER_ORCHESTRATOR_ADDRESS'') fi ui,
        NewOrchDelegatorsExporter (Getenv env ''LIVEPEER_EXPORTER_ORCHESTRATOR_ADDRESS'') fi ui,
        NewOrchTestStreamsExporter (Getenv env ''LIVEPEER_EXPORTER_ORCHESTRATOR_ADDRESS'') tsi ui,
        NewOrchTicketsExporter (Getenv env ''LIVEPEER_EXPORTER_ORCHESTRATOR_ADDRESS'') fi ui]"
    by simp
  ultimately show ?thesis by blast
qed

theorem accepted_duration_used_verbatim_witness:
  "parseTable ''0s'' = Inr 0 \<and>
   parseTable ''-5m'' = Inr (- 300000000000) \<and>
   sint (- 300000000000 :: Duration) = - 300000000000 \<and>
   filter isFatal (fst (main parseTable (\<lambda>a. None)
     [''LIVEPEER_EXPORTER_ORCHESTRATOR_ADDRESS'' \<mapsto> ''0xabc'',
      ''LIVEPEER_EXPORTER_FETCH_INTERVAL'' \<mapsto> ''-5m'',
      ''LIVEPEER_EXPORTER_FETCH_TEST_STREAMS_INTERVAL'' \<mapsto> ''0s'',
      ''LIVEPEER_EXPORTER_UPDATE_INTERVAL'' \<mapsto> ''0s''])) = [] \<and>
   filter isNew (fst (main parseTable (\<lambda>a. None)
     [''LIVEPEER_EXPORTER_ORCHESTRATOR_ADDRESS'' \<mapsto> ''0xabc'',
      ''LIVEPEER_EXPORTER_FETCH_INTERVAL'' \<mapsto> ''-5m'',
      ''LIVEPEER_EXPORTER_FETCH_TEST_STREAMS_INTERVAL'' \<mapsto> ''0s'',
      ''LIVEPEER_EXPORTER_UPDATE_INTERVAL'' \<mapsto> ''0s''])) =
     [NewOrchInfoExporter ''0xabc'' (- 300000000000) 0 [],
      NewOrchScoreExporter ''0xabc'' (- 300000000000) 0,
      NewOrchDelegatorsExporter ''0xabc'' (- 300000000000) 0,
      NewOrchTestStreamsExporter ''0xabc'' 0 0,
      NewOrchTicketsExporter ''0xabc'' (- 300000000000) 0] \<and>
   snd (main parseTable (\<lambda>a. None)
     [''LIVEPEER_EXPORTER_ORCHESTRATOR_ADDRESS'' \<mapsto> ''0xabc'',
      ''LIVEPEER_EXPORTER_FETCH_INTERVAL'' \<mapsto> ''-5m'',
      ''LIVEPEER_EXPORTER_FETCH_TEST_STREAMS_INTERVAL'' \<mapsto> ''0s'',
      ''LIVEPEER_EXPORTER_UPDATE_INTERVAL'' \<mapsto> ''0s'']) = Serves"
proof -
  let ?env = "[''LIVEPEER_EXPORTER_ORCHESTRATOR_ADDRESS'' \<mapsto> ''0xabc'',
      ''LIVEPEER_EXPORTER_FETCH_INTERVAL'' \<mapsto> ''-5m'',
      ''LIVEPEER_EXPORTER_FETCH_TEST_STREAMS_INTERVAL'' \<mapsto> ''0s'',
      ''LIVEPEER_EXPORTER_UPDATE_INTERVAL'' \<mapsto> ''0s'']"
  have z: "parseTable ''0s'' = Inr 0"
    by (simp add: parseTable_def)
  have m: "parseTable ''-5m'' = Inr (- 300000000000)"
    by (simp add: parseTable_def Minute_def Second_def Millisecond_def Microsecond_def
        Nanosecond_def)
  have s: "sint (- 300000000000 :: Duration) = - 300000000000"
    by simp
  have a: "Getenv ?env ''LIVEPEER_EXPORTER_ORCHESTRATOR_ADDRESS'' \<noteq> []"
    by (simp add: Getenv_def)
  have a': "Getenv ?env ''LIVEPEER_EXPORTER_ORCHESTRATOR_ADDRESS'' = ''0xabc''"
    "Getenv ?env ''LIVEPEER_EXPORTER_ORCHESTRATOR_ADDRESS_SECONDARY'' = []"
    by (simp_all add: Getenv_def)
  have f: "(if Getenv ?env ''LIVEPEER_EXPORTER_FETCH_INTERVAL'' = [] then Inr fetchIntervalDefault
          else parseTable (Getenv ?env ''LIVEPEER_EXPORTER_FETCH_INTERVAL'')) = Inr (- 300000000000)"
    by (simp add: Getenv_def m)
  have t: "(if Getenv ?env ''LIVEPEER_EXPORTER_FETCH_TEST_STREAMS_INTERVAL'' = []
          then Inr testStreamsFetchIntervalDefault
          else parseTable (Getenv ?env ''LIVEPEER_EXPORTER_FETCH_TEST_STREAMS_INTERVAL'')) = Inr 0"
    by (simp add: Getenv_def z)
  have u: "(if Getenv ?env ''LIVEPEER_EXPORTER_UPDATE_INTERVAL'' = [] then Inr updateIntervalDefault
          else parseTable (Getenv ?env ''LIVEPEER_EXPORTER_UPDATE_INTERVAL'')) = Inr 0"
    by (simp add: Getenv_def z)
  have o: "snd (main parseTable (\<lambda>a. None) ?env) = Serves"
    using main_configured [where P = parseTable and L = "\<lambda>a. None", OF a f t u] by simp
  from accepted_duration_used_verbatim [where P = parseTable and L = "\<lambda>a. None",
      OF a f t u prod.collapse [symmetric]] a'
  have "filter isFatal (fst (main parseTable (\<lambda>a. None) ?env)) = []"
    and "filter isNew (fst (main parseTable (\<lambda>a. None) ?env)) =
     [NewOrchInfoExporter ''0xabc'' (- 300000000000) 0 [],
      NewOrchScoreExporter ''0xabc'' (- 300000000000) 0,
      NewOrchDelegatorsExporter ''0xabc'' (- 300000000000) 0,
      NewOrchTestStreamsExporter ''0xabc'' 0 0,
      NewOrchTicketsExporter ''0xabc'' (- 300000000000) 0]"
    by simp_all
  with z m s o show ?thesis by blast
qed

subsection \<open>The listener\<close>

text \<open>
  Claim C10. If \<^verbatim>\<open>http.ListenAndServe\<close> on \<^verbatim>\<open>:9153\<close> returns (with whatever error),
  \<^verbatim>\<open>main\<close> returns: the outcome is a plain return (exit status 0, not the status 1 of
  \<^verbatim>\<open>log.Fatal\<close>), the trace has no fatal line and nothing at all after the call, and the
  run is the same for every error value: the error is discarded.
\<close>

theorem listen_error_discarded:
  assumes run: "main P L env = (t, out)"
    and listened: "Listen '':9153'' \<in> set t"
    and failed: "L '':9153'' = Some err"
  shows "out = Returns \<and> exitStatus out = Some 0 \<and> filter isFatal t = [] \<and>
         last t = Listen '':9153'' \<and>
         (\<forall>err'. main P (L('':9153'' := Some err')) env = (t, out))"
proof (cases rule: config_cases [where env = env and P = P])
  case no_address
  from main_no_address [where P = P and L = L, OF this] run listened show ?thesis
    by auto
next
  case (bad_fetch e)
  from main_bad_fetch_interval [where P = P and L = L, OF this] run listened show ?thesis
    by auto
next
  case (bad_test_streams fi e)
  from main_bad_test_streams_interval [where P = P and L = L, OF this] run listened show ?thesis
    by auto
next
  case (bad_update fi tsi e)
  from main_bad_update_interval [where P = P and L = L, OF this] run listened show ?thesis
    by auto
next
  case (configured fi tsi ui)
  from main_configured [where P = P and L = L, OF configured] run failed
  have t: "t = [Println ''Starting Livepeer exporter...'',
       Println ''Setting up sub exporters...'',
       NewOrchInfoExporter (Getenv env ''LIVEPEER_EXPORTER_ORCHESTRATOR_ADDRESS'') fi ui
         (Getenv env ''LIVEPEER_EXPORTER_ORCHESTRATOR_ADDRESS_SECONDARY''),
       NewOrchScoreExporter (Getenv env ''LIVEPEER_EXPORTER_ORCHESTRATOR_ADDRESS'') fi ui,
       NewOrchDelegatorsExporter (Getenv env ''LIVEPEER_EXPORTER_ORCHESTRATOR_ADDRESS'') fi ui,
       NewOrchTestStreamsExporter (Getenv env ''LIVEPEER_EXPORTER_ORCHESTRATOR_ADDRESS'') tsi ui,
       NewOrchTicketsExporter (Getenv env ''LIVEPEER_EXPORTER_ORCHESTRATOR_ADDRESS'') fi ui,
       Println ''Starting sub exporters...'',
       Start OrchInfo, Start OrchScore, Start OrchDelegators, Start OrchTestStreams,
       Start OrchTickets,
       Println ''Exposing metrics via HTTP on port 9153'',
       Handle ''/metrics'',
       Listen '':9153'']"
    and out: "out = Returns"
    by simp_all
  have "main P (L('':9153'' := Some err')) env = (t, out)" for err'
    using main_configured [where P = P and L = "L('':9153'' := Some err')", OF configured] t out
    by simp
  moreover from t have "filter isFatal t = []" "last t = Listen '':9153''" by simp_all
  ultimately show ?thesis using out by simp
qed


theorem listen_error_discarded_witness:
  "main parseTable (\<lambda>a. Some ''listen tcp :9153: bind: address already in use'')
     [''LIVEPEER_EXPORTER_ORCHESTRATOR_ADDRESS'' \<mapsto> ''0xabc''] =
     ([Println ''Starting Livepeer exporter...'',
       Println ''Setting up sub exporters...'',
       NewOrchInfoExporter ''0xabc'' 60000000000 30000000000 [],
       NewOrchScoreExporter ''0xabc'' 60000000000 30000000000,
       NewOrchDelegatorsExporter ''0xabc'' 60000000000 30000000000,
       NewOrchTestStreamsExporter ''0xabc'' 900000000000 30000000000,
       NewOrchTicketsExporter ''0xabc'' 60000000000 30000000000,
       Println ''Starting sub exporters...'',
       Start OrchInfo, Start OrchScore, Start OrchDelegators, Start OrchTestStreams,
       Start OrchTickets,
       Println ''Exposing metrics via HTTP on port 9153'',
       Handle ''/metrics'',
       Listen '':9153''],
      Returns) \<and>
   exitStatus Returns = Some 0"
proof -
  let ?env = "[''LIVEPEER_EXPORTER_ORCHESTRATOR_ADDRESS'' \<mapsto> ''0xabc'']"
  let ?L = "\<lambda>a :: string. Some ''listen tcp :9153: bind: address already in use''"
  let ?t = "[Println ''Starting Livepeer exporter...'',
       Println ''Setting up sub exporters...'',
       NewOrchInfoExporter ''0xabc'' 60000000000 30000000000 [],
       NewOrchScoreExporter ''0xabc'' 60000000000 30000000000,
       NewOrchDelegatorsExporter ''0xabc'' 60000000000 30000000000,
       NewOrchTestStreamsExporter ''0xabc'' 900000000000 30000000000,
       NewOrchTicketsExporter ''0xabc'' 60000000000 30000000000,
       Println ''Starting sub exporters...'',
       Start OrchInfo, Start OrchScore, Start OrchDelegators, Start OrchTestStreams,
       Start OrchTickets,
       Println ''Exposing metrics via HTTP on port 9153'',
       Handle ''/metrics'',
       Listen '':9153'']"
  have t: "fst (main parseTable ?L ?env) = ?t"
    by (simp add: main_def Let_def Getenv_def fetchIntervalDefault_def
        testStreamsFetchIntervalDefault_def updateIntervalDefault_def Minute_def Second_def
        Millisecond_def Microsecond_def Nanosecond_def)
  have r: "main parseTable ?L ?env = (?t, snd (main parseTable ?L ?env))"
    using t by (simp add: prod_eq_iff)
  have l: "Listen '':9153'' \<in> set ?t" by simp
  have e: "?L '':9153'' = Some ''listen tcp :9153: bind: address already in use''" by simp
  from listen_error_discarded [OF r l e]
  have "snd (main parseTable ?L ?env) = Returns" "exitStatus Returns = Some 0"
    by simp_all
  with r show ?thesis by simp
qed

section \<open>Properties of the sub-exporters\<close>

lemma httpGet_failing: "failing upstream dec url \<Longrightarrow> \<exists>e. httpGet upstream dec url = Inl e"
  by (auto simp: failing_def httpGet_def split: http_response.splits option.splits)

lemma httpGetAll_failing:
  "url \<in> set us \<Longrightarrow> failing upstream dec url \<Longrightarrow> \<exists>e. httpGetAll upstream dec us = Inl e"
proof (induction us)
  case Nil
  then show ?case by simp
next
  case (Cons u us)
  show ?case
  proof (cases "httpGet upstream dec u")
    case (Inl e)
    then show ?thesis by simp
  next
    case (Inr r)
    with Cons.prems httpGet_failing [of upstream dec u] have "url \<in> set us"
      by auto
    with Cons.IH Cons.prems(2) obtain e where "httpGetAll upstream dec us = Inl e"
      by blast
    with Inr show ?thesis by simp
  qed
qed

lemma setGauges_eq: "setGauges samples g = g ++ map_of (rev samples)"
  unfolding setGauges_def
proof (induction samples arbitrary: g)
  case Nil
  then show ?case by simp
next
  case (Cons x xs)
  obtain k v where x: "x = (k, v)" by (cases x)
  have "fold (\<lambda>(key, v) g. g(key \<mapsto> v)) (x # xs) g =
        fold (\<lambda>(key, v) g. g(key \<mapsto> v)) xs (g(k \<mapsto> v))"
    by (simp add: x)
  also have "\<dots> = g(k \<mapsto> v) ++ map_of (rev xs)"
    by (rule Cons.IH)
  also have "\<dots> = g ++ map_of (rev (x # xs))"
    by (simp add: x)
  finally show ?case .
qed

lemma setGauges_apply:
  "setGauges samples g key = (case map_of (rev samples) key of Some v \<Rightarrow> Some v | None \<Rightarrow> g key)"
  by (simp add: setGauges_eq map_add_def split: option.split)

lemma setGauges_absent:
  "key \<notin> fst ` set samples \<Longrightarrow> setGauges samples g key = g key"
  by (simp add: setGauges_apply map_of_eq_None_iff [THEN iffD2])

lemma updateTick_idem: "gauges (updateTick k (updateTick k s)) = gauges (updateTick k s)"
proof
  fix key
  show "gauges (updateTick k (updateTick k s)) key = gauges (updateTick k s) key"
    by (simp add: updateTick_def setGauges_apply resetGauges_def split: option.split)
qed

subsection \<open>Failed fetches\<close>

text \<open>
  Claim C4. For every sub-exporter, when one of the GETs of a fetch tick fails (network
  failure, non-2xx status or a body that does not decode), the tick leaves the snapshot and
  the gauges as they were and only logs the error. The next update tick therefore publishes
  what it would have published without the failed fetch, and gauges that an update tick has
  published are unchanged after a failed fetch and a further update tick: nothing is reset
  to zero.
\<close>

theorem failed_fetch_keeps_gauges:
  assumes "url \<in> set (urls k)" and "failing upstream (decode k) url"
  shows "snapshot (fetchTick k upstream s) = snapshot s \<and>
         gauges (fetchTick k upstream s) = gauges s \<and>
         (\<exists>e. errorLog (fetchTick k upstream s) = errorLog s @ [e]) \<and>
         gauges (updateTick k (fetchTick k upstream s)) = gauges (updateTick k s) \<and>
         gauges (updateTick k (fetchTick k upstream (updateTick k s))) = gauges (updateTick k s)"
proof -
  from httpGetAll_failing [OF assms] obtain e
    where e: "httpGetAll upstream (decode k) (urls k) = Inl e"
    by blast
  have f: "fetchTick k upstream s' = s'\<lparr>errorLog := errorLog s' @ [e]\<rparr>" for s' :: "'b sub_exporter"
    by (simp add: fetchTick_def e)
  have u: "gauges (updateTick k (s'\<lparr>errorLog := l\<rparr>)) = gauges (updateTick k s')"
    for s' :: "'b sub_exporter" and l
    by (simp add: updateTick_def)
  show ?thesis
    by (simp add: f u updateTick_idem)
qed

theorem failed_fetch_keeps_gauges_witness:
  "''0xabc'' \<in> set (urls (orchInfoExporter stakeBodies ''0xabc'' ''0xdef'')) \<and>
   failing upstreamDown (decode (orchInfoExporter stakeBodies ''0xabc'' ''0xdef'')) ''0xabc'' \<and>
   scrape (updateTick (orchInfoExporter stakeBodies ''0xabc'' ''0xdef'')
      (fetchTick (orchInfoExporter stakeBodies ''0xabc'' ''0xdef'') upstreamUp (newSubExporter 0)))
     (''livepeer_orch_stake'', []) = Some 150 \<and>
   scrape (updateTick (orchInfoExporter stakeBodies ''0xabc'' ''0xdef'')
      (fetchTick (orchInfoExporter stakeBodies ''0xabc'' ''0xdef'') upstreamDown
        (updateTick (orchInfoExporter stakeBodies ''0xabc'' ''0xdef'')
          (fetchTick (orchInfoExporter stakeBodies ''0xabc'' ''0xdef'') upstreamUp
             (newSubExporter 0)))))
     (''livepeer_orch_stake'', []) = Some 150"
proof -
  let ?k = "orchInfoExporter stakeBodies ''0xabc'' ''0xdef''"
  let ?s = "fetchTick ?k upstreamUp (newSubExporter 0)"
  have m: "''0xabc'' \<in> set (urls ?k)"
    by (simp add: orchInfoExporter_def)
  have b: "failing upstreamDown (decode ?k) ''0xabc''"
    by (simp add: failing_def upstreamDown_def)
  have p: "scrape (updateTick ?k ?s) (''livepeer_orch_stake'', []) = Some 150"
    by (simp add: scrape_def updateTick_def fetchTick_def orchInfoExporter_def httpGet_def
        upstreamUp_def stakeBodies_def newSubExporter_def setGauges_def)
  from failed_fetch_keeps_gauges [OF m b, of ?s] p
  have "scrape (updateTick ?k (fetchTick ?k upstreamDown (updateTick ?k ?s)))
     (''livepeer_orch_stake'', []) = Some 150"
    by (simp add: scrape_def)
  with m b p show ?thesis by blast
qed

subsection \<open>The stake gauge\<close>

text \<open>
  Claim C5. With a secondary address configured, after a fetch tick in which the upstream
  returns bonded stake \<open>primary\<close> for the orchestrator address and \<open>secondary\<close> for
  the secondary address, the next update tick makes the info exporter report
  \<^verbatim>\<open>livepeer_orch_stake\<close> as \<open>primary + secondary\<close> (100 and 50 give 150).
\<close>

theorem info_stake_is_sum:
  assumes "orchAddrSecondary \<noteq> []"
    and "httpGet upstream decodeStake orchAddr = Inr primary"
    and "httpGet upstream decodeStake orchAddrSecondary = Inr secondary"
  shows "scrape (updateTick (orchInfoExporter decodeStake orchAddr orchAddrSecondary)
            (fetchTick (orchInfoExporter decodeStake orchAddr orchAddrSecondary) upstream s))
           (''livepeer_orch_stake'', []) = Some (primary + secondary)"
  using assms
  by (simp add: scrape_def updateTick_def fetchTick_def orchInfoExporter_def setGauges_def)

theorem info_stake_is_sum_witness:
  "''0xdef'' \<noteq> [] \<and>
   httpGet upstreamUp stakeBodies ''0xabc'' = Inr 100 \<and>
   httpGet upstreamUp stakeBodies ''0xdef'' = Inr 50 \<and>
   scrape (updateTick (orchInfoExporter stakeBodies ''0xabc'' ''0xdef'')
            (fetchTick (orchInfoExporter stakeBodies ''0xabc'' ''0xdef'') upstreamUp
               (newSubExporter 0)))
           (''livepeer_orch_stake'', []) = Some 150"
proof -
  have n: "''0xdef'' \<noteq> []" by simp
  have p: "httpGet upstreamUp stakeBodies ''0xabc'' = Inr 100"
    by (simp add: httpGet_def upstreamUp_def stakeBodies_def)
  have q: "httpGet upstreamUp stakeBodies ''0xdef'' = Inr 50"
    by (simp add: httpGet_def upstreamUp_def stakeBodies_def)
  from info_stake_is_sum [OF n p q, of "newSubExporter 0"] n p q show ?thesis
    by simp
qed

subsection \<open>Dynamic label sets\<close>

text \<open>
  Claim C6. For a gauge keyed by a variable-length collection, after a successful fetch
  tick and the next update tick, a label combination that the new snapshot does not
  publish is absent from the scrape, whatever value it had before.
\<close>

theorem removed_labels_disappear:
  assumes "name \<in> set (dynamicGauges k)"
    and "httpGetAll upstream (decode k) (urls k) = Inr rs"
    and "(name, ls) \<notin> fst ` set (publish k (derive k rs))"
  shows "snapshot (fetchTick k upstream s) = derive k rs \<and>
         scrape (updateTick k (fetchTick k upstream s)) (name, ls) = None"
  using assms
  by (simp add: scrape_def updateTick_def fetchTick_def setGauges_absent resetGauges_def)

theorem removed_labels_disappear_witness:
  "''delegator_stake'' \<in> set (dynamicGauges delegatorsLike) \<and>
   httpGetAll upstreamOne (decode delegatorsLike) (urls delegatorsLike) = Inr [[(''0xd1'', 10)]] \<and>
   (''delegator_stake'', [(''delegator'', ''0xd2'')]) \<notin>
     fst ` set (publish delegatorsLike (derive delegatorsLike [[(''0xd1'', 10)]])) \<and>
   scrape (updateTick delegatorsLike (fetchTick delegatorsLike upstreamTwo (newSubExporter [])))
     (''delegator_stake'', [(''delegator'', ''0xd2'')]) = Some 20 \<and>
   scrape (updateTick delegatorsLike (fetchTick delegatorsLike upstreamOne
        (updateTick delegatorsLike (fetchTick delegatorsLike upstreamTwo (newSubExporter [])))))
     (''delegator_stake'', [(''delegator'', ''0xd2'')]) = None \<and>
   scrape (updateTick delegatorsLike (fetchTick delegatorsLike upstreamOne
        (updateTick delegatorsLike (fetchTick delegatorsLike upstreamTwo (newSubExporter [])))))
     (''delegator_stake'', [(''delegator'', ''0xd1'')]) = Some 10"
proof -
  let ?s = "updateTick delegatorsLike (fetchTick delegatorsLike upstreamTwo (newSubExporter []))"
  have d: "''delegator_stake'' \<in> set (dynamicGauges delegatorsLike)"
    by (simp add: delegatorsLike_def)
  have g: "httpGetAll upstreamOne (decode delegatorsLike) (urls delegatorsLike) = Inr [[(''0xd1'', 10)]]"
    by (simp add: delegatorsLike_def httpGet_def upstreamOne_def delegatorBodies_def)
  have a: "(''delegator_stake'', [(''delegator'', ''0xd2'')]) \<notin>
     fst ` set (publish delegatorsLike (derive delegatorsLike [[(''0xd1'', 10)]]))"
    by (simp add: delegatorsLike_def)
  have before: "scrape ?s (''delegator_stake'', [(''delegator'', ''0xd2'')]) = Some 20"
    by (simp add: scrape_def updateTick_def fetchTick_def delegatorsLike_def httpGet_def
        upstreamTwo_def delegatorBodies_def newSubExporter_def setGauges_def resetGauges_def)
  have kept: "scrape (updateTick delegatorsLike (fetchTick delegatorsLike upstreamOne ?s))
     (''delegator_stake'', [(''delegator'', ''0xd1'')]) = Some 10"
    by (simp add: scrape_def updateTick_def fetchTick_def delegatorsLike_def httpGet_def
        upstreamOne_def upstreamTwo_def delegatorBodies_def newSubExporter_def setGauges_def
        resetGauges_def)
  from removed_labels_disappear [OF d g a, of ?s]
  have "scrape (updateTick delegatorsLike (fetchTick delegatorsLike upstreamOne ?s))
     (''delegator_stake'', [(''delegator'', ''0xd2'')]) = None"
    by simp
  with d g a before kept show ?thesis by blast
qed

end
